theory Spec2Isabelle
  imports Main "HOL-Library.Sublist"
begin

section \<open>The Confluence server: a shallow embedding of \<open>confluence-server.py\<close>\<close>

text \<open>
  The program is one Python module. At import time it reads three environment variables,
  refuses to start when one of them is missing or empty, and builds the dictionary
  \<open>headers\<close> holding the Basic authorization header. It then registers four handlers
  (\<open>list_resources\<close>, \<open>read_resource\<close>, \<open>list_tools\<close>, \<open>call_tool\<close>) which
  issue GET requests through \<open>httpx\<close> and hand the decoded JSON back, mostly as text
  produced by \<open>json.dumps(..., indent=2)\<close>.

  Conventions of the embedding:
  \<^item> a Python \<open>str\<close> is a \<^typ>\<open>string\<close>; a \<^typ>\<open>char\<close> stands for the code point of the
    same number, so the model covers the code points below 256 (ASCII and Latin-1);
    \<open>bytes\<close> are char lists too;
  \<^item> a value decoded from JSON is a \<open>json\<close>; a \<open>dict\<close> is the list of its items in
    insertion order (Python keeps the keys distinct; lookup takes the first binding);
  \<^item> a Python \<open>float\<close> is represented by the text \<open>repr\<close> prints for it, so no
    floating-point arithmetic is needed;
  \<^item> every exception is a value of \<open>py_error\<close>, and a computation that may raise returns
    \<open>py_error + 'a\<close>;
  \<^item> the network is a parameter \<open>upstream\<close> mapping the request sent to the response
    received (or to the exception the transport raises); a handler returns its result
    together with the list of the requests it issued, in order;
  \<^item> a URL object of \<open>pydantic\<close> is represented by its string form; what the
    constructor \<open>AnyUrl(text)\<close> makes of a text is fixed for the texts whose outcome
    is plain, and is a parameter \<open>lib\<close> for the others.
\<close>

subsection \<open>Exceptions\<close>

datatype py_error =
    ValueError string
  | HTTPStatusError nat
  | RequestError
  | JSONDecodeError
  | KeyError string
  | TypeError
  | AttributeError
  | ValidationError
  | IndexError
  | UnicodeEncodeError
  | UnicodeDecodeError

text \<open>Sequencing of computations that may raise: the first exception wins.\<close>

definition and_then :: "py_error + 'a \<Rightarrow> ('a \<Rightarrow> py_error + 'b) \<Rightarrow> py_error + 'b" where
  "and_then m f = (case m of Inl e \<Rightarrow> Inl e | Inr x \<Rightarrow> f x)"

subsection \<open>JSON values as Python sees them\<close>

datatype json =
    JNull
  | JBool bool
  | JInt int
  | JFloat string
  | JString string
  | JArray "json list"
  | JObject "(string \<times> json) list"

text \<open>Python's truth value of an object, as \<open>not query\<close> tests it.\<close>

fun truthy :: "json \<Rightarrow> bool" where
  "truthy JNull = False"
| "truthy (JBool b) = b"
| "truthy (JInt i) = (i \<noteq> 0)"
| "truthy (JFloat r) = (r \<noteq> ''0.0'' \<and> r \<noteq> ''-0.0'')"
| "truthy (JString s) = (s \<noteq> [])"
| "truthy (JArray xs) = (xs \<noteq> [])"
| "truthy (JObject kvs) = (kvs \<noteq> [])"

text \<open>\<open>obj.get(key, default)\<close>: only a \<open>dict\<close> has the method.\<close>

fun dict_get :: "json \<Rightarrow> string \<Rightarrow> json \<Rightarrow> py_error + json" where
  "dict_get (JObject kvs) k d = Inr (case map_of kvs k of None \<Rightarrow> d | Some v \<Rightarrow> v)"
| "dict_get _ k d = Inl AttributeError"

text \<open>\<open>obj[key]\<close> with a string key: a missing key of a \<open>dict\<close> is a \<open>KeyError\<close>, and
  nothing else can be indexed by a string.\<close>

fun subscript :: "json \<Rightarrow> string \<Rightarrow> py_error + json" where
  "subscript (JObject kvs) k = (case map_of kvs k of None \<Rightarrow> Inl (KeyError k) | Some v \<Rightarrow> Inr v)"
| "subscript _ k = Inl TypeError"

text \<open>\<open>for x in obj\<close>: a list gives its elements, a \<open>dict\<close> its keys, a \<open>str\<close> its
  characters; the other values are not iterable.\<close>

fun iterate :: "json \<Rightarrow> py_error + json list" where
  "iterate (JArray xs) = Inr xs"
| "iterate (JObject kvs) = Inr (map (\<lambda>kv. JString (fst kv)) kvs)"
| "iterate (JString s) = Inr (map (\<lambda>c. JString [c]) s)"
| "iterate _ = Inl TypeError"

subsection \<open>Text of Python values: \<open>str\<close>, \<open>repr\<close> and \<open>json.dumps\<close>\<close>

definition backslash :: char where "backslash = CHR 0x5C"
definition dquote :: char where "dquote = CHR 0x22"
definition squote :: char where "squote = CHR 0x27"
definition newline :: char where "newline = CHR 0x0A"

definition hexdigit :: "nat \<Rightarrow> char" where
  "hexdigit n = ''0123456789abcdef'' ! (n mod 16)"

definition hex2 :: "nat \<Rightarrow> string" where
  "hex2 n = [hexdigit (n div 16), hexdigit n]"

fun digits :: "nat \<Rightarrow> string" where
  "digits n = (if n < 10 then [char_of (48 + n)]
               else digits (n div 10) @ [char_of (48 + n mod 10)])"

definition int_str :: "int \<Rightarrow> string" where
  "int_str i = (if i < 0 then CHR ''-'' # digits (nat (- i)) else digits (nat i))"

fun join :: "string \<Rightarrow> string list \<Rightarrow> string" where
  "join sep [] = []"
| "join sep [x] = x"
| "join sep (x # y # ys) = x @ sep @ join sep (y # ys)"

text \<open>\<open>str.isprintable\<close> on one code point below 256: the controls, the no-break space
  and the soft hyphen are not printable.\<close>

definition printable :: "char \<Rightarrow> bool" where
  "printable c = (let n = (of_char c :: nat) in
     (32 \<le> n \<and> n < 127) \<or> (161 \<le> n \<and> n \<noteq> 173))"

definition repr_char :: "char \<Rightarrow> char \<Rightarrow> string" where
  "repr_char quote c =
     (if c = quote \<or> c = backslash then [backslash, c]
      else if c = CHR 0x09 then [backslash, CHR ''t'']
      else if c = CHR 0x0A then [backslash, CHR ''n'']
      else if c = CHR 0x0D then [backslash, CHR ''r'']
      else if printable c then [c]
      else [backslash, CHR ''x''] @ hex2 (of_char c))"

definition repr_str :: "string \<Rightarrow> string" where
  "repr_str s =
     (let quote = (if squote \<in> set s \<and> dquote \<notin> set s then dquote else squote)
      in quote # concat (map (repr_char quote) s) @ [quote])"

fun py_repr :: "json \<Rightarrow> string" where
  "py_repr JNull = ''None''"
| "py_repr (JBool b) = (if b then ''True'' else ''False'')"
| "py_repr (JInt i) = int_str i"
| "py_repr (JFloat r) = r"
| "py_repr (JString s) = repr_str s"
| "py_repr (JArray xs) = ''['' @ join '', '' (map py_repr xs) @ '']''"
| "py_repr (JObject kvs) =
     ''{'' @ join '', '' (map (\<lambda>(k, v). repr_str k @ '': '' @ py_repr v) kvs) @ ''}''"

text \<open>What an f-string substitutes for \<open>{x}\<close>: \<open>str(x)\<close>, which is \<open>x\<close> itself for a
  \<open>str\<close> and \<open>repr(x)\<close> for the other JSON values.\<close>

fun py_str :: "json \<Rightarrow> string" where
  "py_str (JString s) = s"
| "py_str v = py_repr v"

text \<open>\<open>json.dumps(obj, indent=2)\<close>. With an indent the item separator is a comma and
  the key separator a colon and a space; \<open>ensure_ascii\<close> is on, so every character outside
  the range from the space to the tilde is escaped.\<close>

definition escape_char :: "char \<Rightarrow> string" where
  "escape_char c =
     (if c = backslash then [backslash, backslash]
      else if c = dquote then [backslash, dquote]
      else if c = CHR 0x08 then [backslash, CHR ''b'']
      else if c = CHR 0x0C then [backslash, CHR ''f'']
      else if c = CHR 0x0A then [backslash, CHR ''n'']
      else if c = CHR 0x0D then [backslash, CHR ''r'']
      else if c = CHR 0x09 then [backslash, CHR ''t'']
      else if 32 \<le> (of_char c :: nat) \<and> (of_char c :: nat) \<le> 126 then [c]
      else [backslash, CHR ''u'', CHR ''0'', CHR ''0''] @ hex2 (of_char c))"

definition encode_basestring_ascii :: "string \<Rightarrow> string" where
  "encode_basestring_ascii s = dquote # concat (map escape_char s) @ [dquote]"

definition floatstr :: "string \<Rightarrow> string" where
  "floatstr r =
     (if r = ''nan'' then ''NaN''
      else if r = ''inf'' then ''Infinity''
      else if r = ''-inf'' then ''-Infinity''
      else r)"

definition newline_indent :: "nat \<Rightarrow> nat \<Rightarrow> string" where
  "newline_indent indent level = newline # replicate (indent * level) CHR '' ''"

fun iterencode :: "nat \<Rightarrow> nat \<Rightarrow> json \<Rightarrow> string" where
  "iterencode indent level JNull = ''null''"
| "iterencode indent level (JBool b) = (if b then ''true'' else ''false'')"
| "iterencode indent level (JInt i) = int_str i"
| "iterencode indent level (JFloat r) = floatstr r"
| "iterencode indent level (JString s) = encode_basestring_ascii s"
| "iterencode indent level (JArray xs) =
     (if xs = [] then ''[]''
      else ''['' @ newline_indent indent (Suc level)
           @ join ('','' @ newline_indent indent (Suc level))
                  (map (iterencode indent (Suc level)) xs)
           @ newline_indent indent level @ '']'')"
| "iterencode indent level (JObject kvs) =
     (if kvs = [] then ''{}''
      else ''{'' @ newline_indent indent (Suc level)
           @ join ('','' @ newline_indent indent (Suc level))
                  (map (\<lambda>(k, v). encode_basestring_ascii k @ '': ''
                                   @ iterencode indent (Suc level) v) kvs)
           @ newline_indent indent level @ ''}'')"

definition json_dumps :: "json \<Rightarrow> nat \<Rightarrow> string" where
  "json_dumps obj indent = iterencode indent 0 obj"

subsection \<open>Encodings: ASCII and base64\<close>

text \<open>\<open>s.encode('ascii')\<close> and \<open>b.decode('ascii')\<close> raise on a character or byte
  above 127.\<close>

definition is_ascii :: "char \<Rightarrow> bool" where
  "is_ascii c = ((of_char c :: nat) < 128)"

definition encode_ascii :: "string \<Rightarrow> py_error + string" where
  "encode_ascii s = (if list_all is_ascii s then Inr s else Inl UnicodeEncodeError)"

definition decode_ascii :: "string \<Rightarrow> py_error + string" where
  "decode_ascii b = (if list_all is_ascii b then Inr b else Inl UnicodeDecodeError)"

definition b64_alphabet :: string where
  "b64_alphabet = ''ABCDEFGHIJKLMNOPQRSTUVWXYZabcdefghijklmnopqrstuvwxyz0123456789+/''"

definition b64_char :: "nat \<Rightarrow> char" where
  "b64_char n = b64_alphabet ! (n mod 64)"

text \<open>\<open>base64.b64encode\<close>: three bytes make four characters of six bits each; a last
  group of one or two bytes is padded with \<open>=\<close>.\<close>

fun b64encode :: "string \<Rightarrow> string" where
  "b64encode [] = []"
| "b64encode [a] =
     (let n = (of_char a :: nat) * 65536
      in [b64_char (n div 262144), b64_char (n div 4096), CHR ''='', CHR ''=''])"
| "b64encode [a, b] =
     (let n = (of_char a :: nat) * 65536 + of_char b * 256
      in [b64_char (n div 262144), b64_char (n div 4096), b64_char (n div 64), CHR ''=''])"
| "b64encode (a # b # c # rest) =
     (let n = (of_char a :: nat) * 65536 + of_char b * 256 + of_char c
      in [b64_char (n div 262144), b64_char (n div 4096), b64_char (n div 64), b64_char n]
         @ b64encode rest)"

subsection \<open>Module start: configuration and the authorization header (lines 16 to 31)\<close>

text \<open>The module's globals once it has loaded. \<open>environ\<close> is the process environment
  after \<open>load_dotenv()\<close>; \<open>os.getenv\<close> gives \<open>None\<close> for a variable that is not set.\<close>

record globals =
  CONFLUENCE_URL :: string
  EMAIL :: string
  API_TOKEN :: string
  headers :: "(string \<times> string) list"

definition getenv :: "(string \<Rightarrow> string option) \<Rightarrow> string \<Rightarrow> string option" where
  "getenv environ k = environ k"

text \<open>The truth value \<open>all\<close> tests: \<open>None\<close> and the empty string are false.\<close>

definition is_set :: "string option \<Rightarrow> bool" where
  "is_set v = (case v of None \<Rightarrow> False | Some s \<Rightarrow> s \<noteq> [])"

definition opt_str :: "string option \<Rightarrow> string" where
  "opt_str v = (case v of None \<Rightarrow> ''None'' | Some s \<Rightarrow> s)"

definition config_message :: string where
  "config_message =
     ''CONFLUENCE_URL, CONFLUENCE_EMAIL, and CONFLUENCE_API_TOKEN environment variables required''"

definition load_module :: "(string \<Rightarrow> string option) \<Rightarrow> py_error + globals" where
  "load_module environ =
     (let url = getenv environ ''CONFLUENCE_URL'';
          email = getenv environ ''CONFLUENCE_EMAIL'';
          token = getenv environ ''CONFLUENCE_API_TOKEN''
      in if \<not> list_all is_set [url, email, token] then Inl (ValueError config_message)
         else
           and_then (encode_ascii (opt_str email @ '':'' @ opt_str token)) (\<lambda>auth_bytes.
           and_then (decode_ascii (b64encode auth_bytes)) (\<lambda>base64_auth.
           Inr \<lparr>CONFLUENCE_URL = opt_str url, EMAIL = opt_str email, API_TOKEN = opt_str token,
                headers = [(''Authorization'', ''Basic '' @ base64_auth),
                           (''Content-Type'', ''application/json'')]\<rparr>)))"

subsection \<open>HTTP through \<open>httpx\<close>\<close>

text \<open>A GET request as the program hands it to \<open>client.get\<close>: the URL, the headers and
  the query parameters (none when the call gives no \<open>params\<close>). Of a response the program
  reads the status and the decoded body: \<open>decoded\<close> is what \<open>response.json()\<close> returns,
  \<open>None\<close> when the body is not JSON.\<close>

record request =
  url :: string
  req_headers :: "(string \<times> string) list"
  params :: "(string \<times> json) list"

record response =
  status_code :: nat
  decoded :: "json option"

type_synonym upstream = "request \<Rightarrow> py_error + response"

text \<open>\<open>response.raise_for_status()\<close> raises unless the status is a success (200 to 299).\<close>

definition is_success :: "response \<Rightarrow> bool" where
  "is_success r = (200 \<le> status_code r \<and> status_code r \<le> 299)"

definition raise_for_status :: "response \<Rightarrow> py_error + response" where
  "raise_for_status r = (if is_success r then Inr r else Inl (HTTPStatusError (status_code r)))"

definition response_json :: "response \<Rightarrow> py_error + json" where
  "response_json r = (case decoded r of None \<Rightarrow> Inl JSONDecodeError | Some j \<Rightarrow> Inr j)"

subsection \<open>The two helpers (lines 33 to 50)\<close>

definition search_request :: "globals \<Rightarrow> json \<Rightarrow> request" where
  "search_request g query =
     \<lparr>url = CONFLUENCE_URL g @ ''/wiki/rest/api/search'',
      req_headers = headers g,
      params = [(''cql'', query)]\<rparr>"

definition search_confluence ::
  "globals \<Rightarrow> upstream \<Rightarrow> json \<Rightarrow> (py_error + json) \<times> request list" where
  "search_confluence g up query =
     (and_then (up (search_request g query)) (\<lambda>response.
      and_then (raise_for_status response) (\<lambda>_.
      and_then (response_json response) (\<lambda>body.
      subscript body ''results''))),
      [search_request g query])"

definition page_request :: "globals \<Rightarrow> json \<Rightarrow> request" where
  "page_request g page_id =
     \<lparr>url = CONFLUENCE_URL g @ ''/wiki/rest/api/content/'' @ py_str page_id
              @ ''?expand=body.storage'',
      req_headers = headers g,
      params = []\<rparr>"

definition get_page_content ::
  "globals \<Rightarrow> upstream \<Rightarrow> json \<Rightarrow> (py_error + json) \<times> request list" where
  "get_page_content g up page_id =
     (and_then (up (page_request g page_id)) (\<lambda>response.
      and_then (raise_for_status response) (\<lambda>_.
      response_json response)),
      [page_request g page_id])"

subsection \<open>Resources (lines 54 to 87)\<close>

text \<open>A value of \<open>any_url\<close> is a URL object of \<open>pydantic\<close> that exists already,
  represented by its string form: \<open>Url s\<close> is the object for which \<open>str(uri)\<close>
  returns \<open>s\<close>. The handler \<open>read_resource\<close> receives such an object and reads
  nothing of it but its string form.\<close>

datatype any_url = Url string

fun url_str :: "any_url \<Rightarrow> string" where
  "url_str (Url s) = s"

text \<open>The Python call \<open>AnyUrl(text)\<close> is another matter: it validates the text and
  normalises it by the rules of the URL standard, so the string form of the object can
  differ from the text (characters of the path are percent-encoded, dot segments resolved,
  white space at the end dropped, and more). The program makes this call on the texts
  \<open>confluence://spaces/{key}\<close> only. The embedding fixes its outcome where the key is
  \<^emph>\<open>plain\<close>: made of ASCII letters, digits, hyphens, underscores, tildes and spaces, and
  not ending with a space. Such a text is accepted, and its string form is the text with
  every space written \<open>%20\<close>. For every other text the outcome, a string form or a
  validation error, is what the parameter \<open>lib\<close> says.\<close>

type_synonym url_lib = "string \<Rightarrow> py_error + string"

definition plain_char :: "char \<Rightarrow> bool" where
  "plain_char c =
     (let n = (of_char c :: nat)
      in (48 \<le> n \<and> n \<le> 57) \<or> (65 \<le> n \<and> n \<le> 90) \<or> (97 \<le> n \<and> n \<le> 122)
         \<or> c = CHR ''-'' \<or> c = CHR ''_'' \<or> c = CHR ''~'')"

definition plain_key :: "string \<Rightarrow> bool" where
  "plain_key k =
     (list_all (\<lambda>c. plain_char c \<or> c = CHR '' '') k \<and> (k = [] \<or> last k \<noteq> CHR '' ''))"

definition percent_encoded :: "string \<Rightarrow> string" where
  "percent_encoded k = concat (map (\<lambda>c. if c = CHR '' '' then ''%20'' else [c]) k)"

definition spaces_prefix :: string where
  "spaces_prefix = ''confluence://spaces/''"

definition make_any_url :: "url_lib \<Rightarrow> string \<Rightarrow> py_error + any_url" where
  "make_any_url lib text =
     (if prefix spaces_prefix text \<and> plain_key (drop (length spaces_prefix) text)
      then Inr (Url (spaces_prefix @ percent_encoded (drop (length spaces_prefix) text)))
      else map_sum id Url (lib text))"

text \<open>A \<open>Resource\<close> of \<open>mcp.types\<close> has a \<open>str\<close> name, and an optional \<open>str\<close> for
  \<open>description\<close> and \<open>mimeType\<close>: building one with another kind of value for
  \<open>description\<close> is a validation error.\<close>

record resource =
  uri :: any_url
  name :: string
  description :: "string option"
  mimeType :: "string option"

fun optional_str :: "json \<Rightarrow> py_error + string option" where
  "optional_str (JString s) = Inr (Some s)"
| "optional_str JNull = Inr None"
| "optional_str _ = Inl ValidationError"

text \<open>One element of the list comprehension of \<open>list_resources\<close>: the keyword
  arguments are evaluated in the order they are written, then the \<open>Resource\<close> is built.\<close>

definition space_resource :: "url_lib \<Rightarrow> json \<Rightarrow> py_error + resource" where
  "space_resource lib space =
     and_then (subscript space ''key'') (\<lambda>key.
     and_then (make_any_url lib (''confluence://spaces/'' @ py_str key)) (\<lambda>u.
     and_then (subscript space ''name'') (\<lambda>nm.
     and_then (dict_get space ''description'' (JObject [])) (\<lambda>d.
     and_then (dict_get d ''plain'' (JObject [])) (\<lambda>p.
     and_then (dict_get p ''value'' (JString [])) (\<lambda>v.
     and_then (optional_str v) (\<lambda>descr.
     Inr \<lparr>uri = u,
          name = ''Space: '' @ py_str nm,
          description = descr,
          mimeType = Some ''application/json''\<rparr>)))))))"

fun collect :: "('a \<Rightarrow> py_error + 'b) \<Rightarrow> 'a list \<Rightarrow> py_error + 'b list" where
  "collect f [] = Inr []"
| "collect f (x # xs) =
     and_then (f x) (\<lambda>y. and_then (collect f xs) (\<lambda>ys. Inr (y # ys)))"

definition spaces_request :: "globals \<Rightarrow> request" where
  "spaces_request g =
     \<lparr>url = CONFLUENCE_URL g @ ''/wiki/rest/api/space'',
      req_headers = headers g,
      params = []\<rparr>"

definition list_resources ::
  "url_lib \<Rightarrow> globals \<Rightarrow> upstream \<Rightarrow> (py_error + resource list) \<times> request list" where
  "list_resources lib g up =
     (and_then (up (spaces_request g)) (\<lambda>response.
      and_then (response_json response) (\<lambda>body.
      and_then (subscript body ''results'') (\<lambda>spaces_data.
      and_then (iterate spaces_data) (\<lambda>spaces.
      collect (space_resource lib) spaces)))),
      [spaces_request g])"

text \<open>\<open>s.split(sep)\<close> for a separator of one character, and \<open>xs[-1]\<close>.\<close>

fun str_split :: "char \<Rightarrow> string \<Rightarrow> string list" where
  "str_split sep [] = [[]]"
| "str_split sep (c # cs) =
     (if c = sep then [] # str_split sep cs
      else (case str_split sep cs of [] \<Rightarrow> [[c]] | w # ws \<Rightarrow> (c # w) # ws))"

definition last_item :: "'a list \<Rightarrow> py_error + 'a" where
  "last_item xs = (if xs = [] then Inl IndexError else Inr (last xs))"

definition space_content_request :: "globals \<Rightarrow> string \<Rightarrow> request" where
  "space_content_request g space_key =
     \<lparr>url = CONFLUENCE_URL g @ ''/wiki/rest/api/space/'' @ space_key @ ''/content'',
      req_headers = headers g,
      params = []\<rparr>"

definition read_resource ::
  "globals \<Rightarrow> upstream \<Rightarrow> any_url \<Rightarrow> (py_error + string) \<times> request list" where
  "read_resource g up u =
     (let uri_str = url_str u in
      if prefix ''confluence://spaces/'' uri_str then
        (case last_item (str_split CHR ''/'' uri_str) of
           Inl e \<Rightarrow> (Inl e, [])
         | Inr space_key \<Rightarrow>
             (and_then (up (space_content_request g space_key)) (\<lambda>response.
              and_then (response_json response) (\<lambda>body.
              Inr (json_dumps body 2))),
              [space_content_request g space_key]))
      else if prefix ''confluence://pages/'' uri_str then
        (case last_item (str_split CHR ''/'' uri_str) of
           Inl e \<Rightarrow> (Inl e, [])
         | Inr page_id \<Rightarrow>
             (case get_page_content g up (JString page_id) of
                (content, sent) \<Rightarrow> (and_then content (\<lambda>c. Inr (json_dumps c 2)), sent)))
      else (Inl (ValueError (''Unknown resource: '' @ uri_str)), []))"

subsection \<open>Tools (lines 89 to 136)\<close>

record tool =
  tool_name :: string
  tool_description :: string
  inputSchema :: json

definition list_tools :: "tool list" where
  "list_tools =
     [\<lparr>tool_name = ''search_content'',
       tool_description = ''Search Confluence content using CQL'',
       inputSchema = JObject
         [(''type'', JString ''object''),
          (''properties'', JObject
             [(''query'', JObject
                 [(''type'', JString ''string''),
                  (''description'', JString ''Confluence Query Language (CQL) query'')])]),
          (''required'', JArray [JString ''query''])]\<rparr>,
      \<lparr>tool_name = ''get_page'',
       tool_description = ''Get Confluence page content by ID'',
       inputSchema = JObject
         [(''type'', JString ''object''),
          (''properties'', JObject
             [(''page_id'', JObject
                 [(''type'', JString ''string''),
                  (''description'', JString ''Confluence page ID'')])]),
          (''required'', JArray [JString ''page_id''])]\<rparr>]"

definition call_tool ::
  "globals \<Rightarrow> upstream \<Rightarrow> string \<Rightarrow> json \<Rightarrow> (py_error + string) \<times> request list" where
  "call_tool g up nm arguments =
     (if nm = ''search_content'' then
        (case dict_get arguments ''query'' JNull of
           Inl e \<Rightarrow> (Inl e, [])
         | Inr query \<Rightarrow>
             if \<not> truthy query then (Inl (ValueError ''Query parameter is required''), [])
             else (case search_confluence g up query of
                     (results, sent) \<Rightarrow> (and_then results (\<lambda>r. Inr (json_dumps r 2)), sent)))
      else if nm = ''get_page'' then
        (case dict_get arguments ''page_id'' JNull of
           Inl e \<Rightarrow> (Inl e, [])
         | Inr page_id \<Rightarrow>
             if \<not> truthy page_id then (Inl (ValueError ''Page ID parameter is required''), [])
             else (case get_page_content g up page_id of
                     (content, sent) \<Rightarrow> (and_then content (\<lambda>c. Inr (json_dumps c 2)), sent)))
      else (Inl (ValueError (''Unknown tool: '' @ nm)), []))"

subsection \<open>Handlers called by a host, and the script (lines 138 to 139)\<close>

text \<open>The decorators register the four handlers on \<open>server\<close>. A host that has loaded
  the module calls the handler registered for the kind of each request it receives;
  \<open>serve\<close> is a sequence of such calls on the loaded module, \<open>ups n\<close> being the network
  as call number \<open>n\<close> meets it.\<close>

datatype rpc =
    ListResources
  | ReadResource any_url
  | ListTools
  | CallTool string json

datatype reply =
    ResourceList "resource list"
  | ToolList "tool list"
  | TextReply string

definition dispatch ::
  "url_lib \<Rightarrow> globals \<Rightarrow> upstream \<Rightarrow> rpc \<Rightarrow> (py_error + reply) \<times> request list" where
  "dispatch lib g up r =
     (case r of
        ListResources \<Rightarrow>
          (case list_resources lib g up of (res, sent) \<Rightarrow> (map_sum id ResourceList res, sent))
      | ReadResource u \<Rightarrow>
          (case read_resource g up u of (res, sent) \<Rightarrow> (map_sum id TextReply res, sent))
      | ListTools \<Rightarrow> (Inr (ToolList list_tools), [])
      | CallTool nm arguments \<Rightarrow>
          (case call_tool g up nm arguments of (res, sent) \<Rightarrow> (map_sum id TextReply res, sent)))"

fun serve ::
  "url_lib \<Rightarrow> globals \<Rightarrow> (nat \<Rightarrow> upstream) \<Rightarrow> nat \<Rightarrow> rpc list
     \<Rightarrow> ((py_error + reply) \<times> request list) list" where
  "serve lib g ups n [] = []"
| "serve lib g ups n (r # rs) = dispatch lib g (ups n) r # serve lib g ups (Suc n) rs"



section \<open>The vocabulary of the specification\<close>

text \<open>The trailing segment of a URI: the characters after its last slash.\<close>

definition trailing_segment :: "string \<Rightarrow> string" where
  "trailing_segment s = rev (takeWhile (\<lambda>c. c \<noteq> CHR ''/'') (rev s))"

text \<open>The path of a URI ends where its query (\<open>?\<close>) or its fragment (\<open>#\<close>) begins;
  the trailing path segment is the text after the last slash of the path.\<close>

definition trailing_path_segment :: "string \<Rightarrow> string" where
  "trailing_path_segment s =
     trailing_segment (takeWhile (\<lambda>c. c \<noteq> CHR ''?'' \<and> c \<noteq> CHR ''#'') s)"

text \<open>A member of a JSON object, when there is one.\<close>

fun field :: "json \<Rightarrow> string \<Rightarrow> json option" where
  "field (JObject kvs) k = map_of kvs k"
| "field _ k = None"

fun is_object :: "json \<Rightarrow> bool" where
  "is_object (JObject kvs) = True"
| "is_object _ = False"








text \<open>Pretty-printing with an indentation of two spaces, as a layout in lines. A scalar,
  an empty array and an empty object take one line. A non-empty array is the line
  \<open>[\<close>, then its items, each laid out in lines of its own and moved two spaces to
  the right, a comma closing every item but the last, then the line \<open>]\<close>. An
  object is laid out the same way between \<open>{\<close> and \<open>}\<close>, each member being its
  key, a colon and a space before the first line of its value. The text is the lines
  joined by newlines.\<close>

definition indent2 :: "string list \<Rightarrow> string list" where
  "indent2 ls = map (\<lambda>l. ''  '' @ l) ls"

fun with_comma :: "string list \<Rightarrow> string list" where
  "with_comma [] = []"
| "with_comma [l] = [l @ '','']"
| "with_comma (l # m # ls) = l # with_comma (m # ls)"

fun prefixed :: "string \<Rightarrow> string list \<Rightarrow> string list" where
  "prefixed p [] = [p]"
| "prefixed p (l # ls) = (p @ l) # ls"

fun separated :: "string list list \<Rightarrow> string list" where
  "separated [] = []"
| "separated [b] = b"
| "separated (b # c # bs) = with_comma b @ separated (c # bs)"

fun layout :: "json \<Rightarrow> string list" where
  "layout JNull = [''null'']"
| "layout (JBool b) = [if b then ''true'' else ''false'']"
| "layout (JInt i) = [int_str i]"
| "layout (JFloat r) = [floatstr r]"
| "layout (JString s) = [encode_basestring_ascii s]"
| "layout (JArray xs) =
     (if xs = [] then [''[]'']
      else ''['' # indent2 (separated (map layout xs)) @ ['']''])"
| "layout (JObject kvs) =
     (if kvs = [] then [''{}'']
      else ''{'' # indent2 (separated
             (map (\<lambda>(k, v). prefixed (encode_basestring_ascii k @ '': '') (layout v)) kvs))
           @ [''}''])"

definition two_space_layout :: "json \<Rightarrow> string" where
  "two_space_layout j = join [newline] (layout j)"

section \<open>Concrete runs\<close>

definition example_environ :: "string \<Rightarrow> string option" where
  "example_environ =
     [''CONFLUENCE_URL'' \<mapsto> ''https://wiki.example.com'',
      ''CONFLUENCE_EMAIL'' \<mapsto> ''a@b.c'',
      ''CONFLUENCE_API_TOKEN'' \<mapsto> ''tok'']"

definition example_globals :: globals where
  "example_globals =
     \<lparr>CONFLUENCE_URL = ''https://wiki.example.com'', EMAIL = ''a@b.c'', API_TOKEN = ''tok'',
      headers = [(''Authorization'', ''Basic YUBiLmM6dG9r''),
                 (''Content-Type'', ''application/json'')]\<rparr>"


definition example_listing :: json where
  "example_listing =
     JObject [(''results'', JArray
       [JObject [(''key'', JString ''ENG''), (''name'', JString ''Engineering''),
                 (''description'', JObject [(''plain'', JObject [(''value'', JString ''Docs'')])])],
        JObject [(''key'', JString ''OPS''), (''name'', JString ''Operations'')]])]"

definition example_page :: json where
  "example_page = JObject [(''id'', JString ''12345''), (''title'', JString ''Home'')]"


text \<open>A stand-in for the URL library in runs that build plain URLs only.\<close>

definition rejecting_lib :: url_lib where
  "rejecting_lib = (\<lambda>text. Inl ValidationError)"

text \<open>A network that answers every request with the given status and JSON body.\<close>

definition answering :: "nat \<Rightarrow> json \<Rightarrow> upstream" where
  "answering status body = (\<lambda>req. Inr \<lparr>status_code = status, decoded = Some body\<rparr>)"

section \<open>Auxiliary facts\<close>

lemma str_split_not_Nil: "str_split sep s \<noteq> []"
  by (induction s) (auto split: list.splits)

lemma str_split_no_sep: "sep \<notin> set s \<Longrightarrow> str_split sep s = [s]"
  by (induction s) auto

lemma str_split_with_sep: "sep \<in> set s \<Longrightarrow> \<exists>w w' ws. str_split sep s = w # w' # ws"
proof (induction s)
  case Nil
  then show ?case by simp
next
  case (Cons c cs)
  show ?case
  proof (cases "c = sep")
    case True
    then show ?thesis using str_split_not_Nil[of sep cs]
      by (cases "str_split sep cs") auto
  next
    case False
    with Cons.prems have "sep \<in> set cs" by simp
    then obtain w w' ws where "str_split sep cs = w # w' # ws"
      using Cons.IH by blast
    with False show ?thesis by simp
  qed
qed

lemma last_str_split:
  "last (str_split sep s) = rev (takeWhile (\<lambda>c. c \<noteq> sep) (rev s))"
proof (induction s)
  case Nil
  then show ?case by simp
next
  case (Cons c cs)
  show ?case
  proof (cases "c = sep")
    case True
    then show ?thesis using Cons str_split_not_Nil[of sep cs]
      by (simp add: takeWhile_append)
  next
    case False
    show ?thesis
    proof (cases "sep \<in> set cs")
      case True
      then obtain w w' ws where split: "str_split sep cs = w # w' # ws"
        using str_split_with_sep by blast
      from True have "takeWhile (\<lambda>c. c \<noteq> sep) (rev cs @ [c]) = takeWhile (\<lambda>c. c \<noteq> sep) (rev cs)"
        by (auto simp: takeWhile_append)
      with Cons split False show ?thesis by simp
    next
      case nosep: False
      with False have all: "\<forall>x \<in> set (rev (c # cs)). x \<noteq> sep" by auto
      have tw: "takeWhile (\<lambda>c. c \<noteq> sep) (rev (c # cs)) = rev (c # cs)"
        using all by (subst takeWhile_eq_all_conv) blast
      have one: "str_split sep (c # cs) = [c # cs]"
        using nosep False by (intro str_split_no_sep) simp
      show ?thesis unfolding tw one by simp
    qed
  qed
qed

lemma b64_char_ascii: "is_ascii (b64_char n)"
proof -
  have "b64_char n \<in> set b64_alphabet"
    unfolding b64_char_def by (rule nth_mem) (simp add: b64_alphabet_def)
  moreover have "\<forall>c \<in> set b64_alphabet. is_ascii c"
    by (simp add: b64_alphabet_def is_ascii_def)
  ultimately show ?thesis by blast
qed

lemma pad_ascii: "is_ascii CHR ''=''"
  by (simp add: is_ascii_def)

lemma b64encode_ascii: "list_all is_ascii (b64encode bs)"
  by (induction bs rule: b64encode.induct) (simp_all add: Let_def b64_char_ascii pad_ascii)


lemma last_item_split: "last_item (str_split CHR ''/'' s) = Inr (trailing_segment s)"
  by (simp add: last_item_def str_split_not_Nil last_str_split trailing_segment_def)


lemma make_any_url_plain:
  "plain_key k \<Longrightarrow>
   make_any_url lib (''confluence://spaces/'' @ k)
     = Inr (Url (''confluence://spaces/'' @ percent_encoded k))"
  by (simp add: make_any_url_def spaces_prefix_def)


lemma search_confluence_status:
  "up (search_request g q) = Inr r \<Longrightarrow> \<not> is_success r \<Longrightarrow>
   search_confluence g up q = (Inl (HTTPStatusError (status_code r)), [search_request g q])"
  by (simp add: search_confluence_def and_then_def raise_for_status_def)

lemma get_page_content_status:
  "up (page_request g p) = Inr r \<Longrightarrow> \<not> is_success r \<Longrightarrow>
   get_page_content g up p = (Inl (HTTPStatusError (status_code r)), [page_request g p])"
  by (simp add: get_page_content_def and_then_def raise_for_status_def)

lemma join_Cons: "ls \<noteq> [] \<Longrightarrow> join s (l # ls) = l @ s @ join s ls"
  by (cases ls) simp_all

lemma join_append: "as \<noteq> [] \<Longrightarrow> bs \<noteq> [] \<Longrightarrow> join s (as @ bs) = join s as @ s @ join s bs"
  by (induction s as rule: join.induct) (simp_all add: join_Cons)

lemma with_comma_not_Nil: "ls \<noteq> [] \<Longrightarrow> with_comma ls \<noteq> []"
  by (induction ls rule: with_comma.induct) simp_all

lemma join_with_comma: "ls \<noteq> [] \<Longrightarrow> join s (with_comma ls) = join s ls @ '',''"
  by (induction ls rule: with_comma.induct) (simp_all add: join_Cons with_comma_not_Nil)

lemma join_prefixed: "ls \<noteq> [] \<Longrightarrow> join s (prefixed p ls) = p @ join s ls"
  by (cases ls) (simp_all, metis append.assoc join.simps(2) join_Cons)

lemma join_map_prefix: "ls \<noteq> [] \<Longrightarrow> join s (map (\<lambda>l. p @ l) ls) = p @ join (s @ p) ls"
  by (induction s ls rule: join.induct) (simp_all add: join_Cons)

lemma layout_not_Nil: "layout v \<noteq> []"
  by (cases v) simp_all

lemma prefixed_not_Nil: "prefixed p ls \<noteq> []"
  by (cases ls) simp_all

lemma separated_not_Nil: "bs \<noteq> [] \<Longrightarrow> \<forall>b \<in> set bs. b \<noteq> [] \<Longrightarrow> separated bs \<noteq> []"
  by (induction bs rule: separated.induct) (simp_all add: with_comma_not_Nil)

lemma join_separated:
  "bs \<noteq> [] \<Longrightarrow> \<forall>b \<in> set bs. b \<noteq> [] \<Longrightarrow>
   join s (separated bs) = join ('','' @ s) (map (join s) bs)"
  by (induction bs rule: separated.induct)
    (simp_all add: join_append with_comma_not_Nil separated_not_Nil join_with_comma)

lemma newline_indent_Suc: "newline_indent 2 (Suc level) = newline_indent 2 level @ ''  ''"
proof -
  have "replicate (2 * Suc level) CHR '' '' = replicate (2 * level) CHR '' '' @ replicate 2 CHR '' ''"
    by (simp only: replicate_add [symmetric]) simp
  then show ?thesis
    by (simp add: newline_indent_def numeral_2_eq_2)
qed

lemma join_indent2:
  "ls \<noteq> [] \<Longrightarrow>
   newline_indent 2 level @ join (newline_indent 2 level) (indent2 ls)
     = newline_indent 2 (Suc level) @ join (newline_indent 2 (Suc level)) ls"
  using join_map_prefix [of ls "newline_indent 2 level" "''  ''"]
  by (simp add: indent2_def newline_indent_Suc)

lemma iterencode_layout:
  "iterencode 2 level v = join (newline_indent 2 level) (layout v)"
proof (induction v arbitrary: level)
  case (JArray xs)
  show ?case
  proof (cases "xs = []")
    case True
    then show ?thesis by simp
  next
    case False
    let ?s = "newline_indent 2 (Suc level)"
    have blocks: "map layout xs \<noteq> []" "\<forall>b \<in> set (map layout xs). b \<noteq> []"
      using False by (simp_all add: layout_not_Nil)
    have items: "map (iterencode 2 (Suc level)) xs = map (join ?s) (map layout xs)"
      using JArray by simp
    have code: "iterencode 2 level (JArray xs)
        = ''['' @ ?s @ join ('','' @ ?s) (map (join ?s) (map layout xs))
           @ newline_indent 2 level @ '']''"
      using False by (simp only: iterencode.simps if_False items)
    have "join (newline_indent 2 level) (layout (JArray xs))
        = ''['' @ newline_indent 2 level
           @ join (newline_indent 2 level) (indent2 (separated (map layout xs)))
           @ newline_indent 2 level @ '']''"
      using False blocks
      by (simp add: join_Cons join_append indent2_def separated_not_Nil)
    also have "\<dots> = ''['' @ ?s @ join ?s (separated (map layout xs))
           @ newline_indent 2 level @ '']''"
      using join_indent2 [OF separated_not_Nil [OF blocks], of level] by simp
    also have "\<dots> = ''['' @ ?s @ join ('','' @ ?s) (map (join ?s) (map layout xs))
           @ newline_indent 2 level @ '']''"
      by (simp only: join_separated [OF blocks])
    finally show ?thesis
      by (simp only: code)
  qed
next
  case (JObject kvs)
  show ?case
  proof (cases "kvs = []")
    case True
    then show ?thesis by simp
  next
    case False
    let ?s = "newline_indent 2 (Suc level)"
    let ?member = "\<lambda>(k, v). prefixed (encode_basestring_ascii k @ '': '') (layout v)"
    have blocks: "map ?member kvs \<noteq> []" "\<forall>b \<in> set (map ?member kvs). b \<noteq> []"
      using False by (auto simp: prefixed_not_Nil)
    have "\<And>k v. (k, v) \<in> set kvs \<Longrightarrow>
        encode_basestring_ascii k @ '': '' @ iterencode 2 (Suc level) v
          = join ?s (prefixed (encode_basestring_ascii k @ '': '') (layout v))"
      using JObject by (fastforce simp: join_prefixed layout_not_Nil)
    then have items:
      "map (\<lambda>(k, v). encode_basestring_ascii k @ '': '' @ iterencode 2 (Suc level) v) kvs
        = map (join ?s) (map ?member kvs)"
      by (auto simp: case_prod_beta)
    have code: "iterencode 2 level (JObject kvs)
        = ''{'' @ ?s @ join ('','' @ ?s) (map (join ?s) (map ?member kvs))
           @ newline_indent 2 level @ ''}''"
      using False by (simp only: iterencode.simps if_False items)
    have "join (newline_indent 2 level) (layout (JObject kvs))
        = ''{'' @ newline_indent 2 level
           @ join (newline_indent 2 level) (indent2 (separated (map ?member kvs)))
           @ newline_indent 2 level @ ''}''"
      using False blocks
      by (simp add: join_Cons join_append indent2_def separated_not_Nil)
    also have "\<dots> = ''{'' @ ?s @ join ?s (separated (map ?member kvs))
           @ newline_indent 2 level @ ''}''"
      using join_indent2 [OF separated_not_Nil [OF blocks], of level] by simp
    also have "\<dots> = ''{'' @ ?s @ join ('','' @ ?s) (map (join ?s) (map ?member kvs))
           @ newline_indent 2 level @ ''}''"
      by (simp only: join_separated [OF blocks])
    finally show ?thesis
      by (simp only: code)
  qed
qed simp_all

lemma json_dumps_layout: "json_dumps body 2 = two_space_layout body"
  by (simp add: json_dumps_def two_space_layout_def iterencode_layout newline_indent_def)


lemma load_module_ok:
  assumes "environ ''CONFLUENCE_URL'' = Some u" "u \<noteq> []"
    and "environ ''CONFLUENCE_EMAIL'' = Some e" "e \<noteq> []"
    and "environ ''CONFLUENCE_API_TOKEN'' = Some t" "t \<noteq> []"
    and "list_all is_ascii e" "list_all is_ascii t"
  shows "load_module environ =
     Inr \<lparr>CONFLUENCE_URL = u, EMAIL = e, API_TOKEN = t,
          headers = [(''Authorization'', ''Basic '' @ b64encode (e @ '':'' @ t)),
                     (''Content-Type'', ''application/json'')]\<rparr>"
proof -
  have "list_all is_ascii (e @ '':'' @ t)"
    using assms(7,8) by (simp add: is_ascii_def)
  then have enc: "encode_ascii (e @ '':'' @ t) = Inr (e @ '':'' @ t)"
    by (simp add: encode_ascii_def)
  have dec: "decode_ascii (b64encode (e @ '':'' @ t)) = Inr (b64encode (e @ '':'' @ t))"
    by (simp add: decode_ascii_def b64encode_ascii)
  show ?thesis
    using assms(1-6) enc dec
    by (simp add: load_module_def getenv_def Let_def is_set_def opt_str_def and_then_def)
qed

lemma load_module_headers:
  assumes "load_module environ = Inr g"
    and "environ ''CONFLUENCE_EMAIL'' = Some e"
    and "environ ''CONFLUENCE_API_TOKEN'' = Some t"
  shows "headers g = [(''Authorization'', ''Basic '' @ b64encode (e @ '':'' @ t)),
                      (''Content-Type'', ''application/json'')]"
  using assms
  by (auto simp: load_module_def getenv_def Let_def opt_str_def and_then_def
      encode_ascii_def decode_ascii_def split: if_splits sum.splits)

lemma list_resources_headers:
  "req \<in> set (snd (list_resources lib g up)) \<Longrightarrow> req_headers req = headers g"
  by (simp add: list_resources_def spaces_request_def)

lemma read_resource_headers:
  "req \<in> set (snd (read_resource g up u)) \<Longrightarrow> req_headers req = headers g"
  by (auto simp: read_resource_def Let_def space_content_request_def get_page_content_def
      page_request_def split: if_splits sum.splits prod.splits)

lemma call_tool_headers:
  "req \<in> set (snd (call_tool g up nm arguments)) \<Longrightarrow> req_headers req = headers g"
  by (auto simp: call_tool_def search_confluence_def search_request_def get_page_content_def
      page_request_def split: if_splits sum.splits prod.splits)

lemma dispatch_headers:
  assumes "req \<in> set (snd (dispatch lib g up r))"
  shows "req_headers req = headers g"
proof (cases r)
  case ListResources
  then show ?thesis using assms list_resources_headers [of req lib g up]
    by (simp add: dispatch_def split: prod.splits)
next
  case (ReadResource u)
  then show ?thesis using assms read_resource_headers [of req g up u]
    by (simp add: dispatch_def split: prod.splits)
next
  case ListTools
  then show ?thesis using assms by (simp add: dispatch_def)
next
  case (CallTool nm arguments)
  then show ?thesis using assms call_tool_headers [of req g up nm arguments]
    by (simp add: dispatch_def split: prod.splits)
qed

lemma serve_headers:
  "out \<in> set (serve lib g ups n rpcs) \<Longrightarrow> req \<in> set (snd out) \<Longrightarrow> req_headers req = headers g"
  by (induction rpcs arbitrary: n) (auto dest: dispatch_headers)

lemma b64_example: "b64encode ''a@b.c:tok'' = ''YUBiLmM6dG9r''"
  by (simp add: b64_char_def b64_alphabet_def)

lemma load_example: "load_module example_environ = Inr example_globals"
  using load_module_ok [of example_environ "''https://wiki.example.com''" "''a@b.c''" "''tok''"]
  by (simp add: example_environ_def example_globals_def is_ascii_def b64_char_def
      b64_alphabet_def)

section \<open>The claims\<close>

text \<open>
  Claim C1: each of the four upstream operations (space listing, space content listing,
  search, page fetch) fails with an upstream error carrying the status whenever the
  response has a non-2xx status, instead of returning a result built from the body.

  The two helpers \<open>search_confluence\<close> and \<open>get_page_content\<close> call
  \<open>raise_for_status\<close> (lemmas \<open>search_confluence_status\<close> and
  \<open>get_page_content_status\<close>). The space listing in \<open>list_resources\<close> and the space
  content listing in \<open>read_resource\<close> do not: answered with status 500, the first
  returns the descriptors built from the body and the second the body pretty-printed,
  while the page fetch with the same answer raises the status error.
\<close>

theorem space_requests_ignore_status:
  "list_resources lib example_globals (answering 500 example_listing)
     = (Inr [\<lparr>uri = Url ''confluence://spaces/ENG'', name = ''Space: Engineering'',
              description = Some ''Docs'', mimeType = Some ''application/json''\<rparr>,
            \<lparr>uri = Url ''confluence://spaces/OPS'', name = ''Space: Operations'',
              description = Some [], mimeType = Some ''application/json''\<rparr>],
        [spaces_request example_globals])
   \<and> read_resource example_globals (answering 500 example_page)
         (Url ''confluence://spaces/ENG'')
     = (Inr (json_dumps example_page 2), [space_content_request example_globals ''ENG''])
   \<and> read_resource example_globals (answering 500 example_page)
         (Url ''confluence://pages/12345'')
     = (Inl (HTTPStatusError 500), [page_request example_globals (JString ''12345'')])"
proof -
  have "plain_key ''ENG''" "plain_key ''OPS''"
    by (simp_all add: plain_key_def plain_char_def)
  then have urls:
    "make_any_url lib ''confluence://spaces/ENG'' = Inr (Url ''confluence://spaces/ENG'')"
    "make_any_url lib ''confluence://spaces/OPS'' = Inr (Url ''confluence://spaces/OPS'')"
    using make_any_url_plain [of "''ENG''" lib] make_any_url_plain [of "''OPS''" lib]
    by (simp_all add: percent_encoded_def)
  show ?thesis
    by (simp add: list_resources_def read_resource_def answering_def example_listing_def
        and_then_def response_json_def space_resource_def urls last_item_def
        get_page_content_def raise_for_status_def is_success_def)
qed




text \<open>
  Claim C3, as stated: for a URI starting with \<open>confluence://spaces/\<close> the GET goes to
  the content listing of the key that is the trailing path segment of the URI. The
  handler takes the text after the last slash of the whole string form instead: for
  \<open>confluence://spaces/ENG?next=/x\<close>, whose trailing path segment is \<open>ENG\<close>, the
  GET goes to the content listing of \<open>x\<close>.
\<close>

theorem read_resource_query_slash_counterexample:
  "prefix ''confluence://spaces/'' ''confluence://spaces/ENG?next=/x''
   \<and> trailing_path_segment ''confluence://spaces/ENG?next=/x'' = ''ENG''
   \<and> snd (read_resource example_globals (answering 200 example_page)
            (Url ''confluence://spaces/ENG?next=/x''))
     = [\<lparr>url = ''https://wiki.example.com/wiki/rest/api/space/x/content'',
         req_headers = headers example_globals, params = []\<rparr>]"
  by (simp add: trailing_path_segment_def trailing_segment_def read_resource_def last_item_def
      space_content_request_def example_globals_def)

text \<open>
  Claim C3, amended: for every URI whose string form starts with
  \<open>confluence://spaces/\<close>, \<open>read_resource\<close> issues one GET to
  \<open>{baseUrl}/wiki/rest/api/space/{key}/content\<close>, where the key is the text after the
  last slash of the string form (the trailing path segment when the URI has neither
  query nor fragment), and returns the JSON body of the response pretty-printed with an
  indentation of two spaces (the layout \<open>two_space_layout\<close>); for every URI starting
  with \<open>confluence://pages/\<close> it issues one GET to
  \<open>{baseUrl}/wiki/rest/api/content/{id}?expand=body.storage\<close>, the id being the text
  after the last slash, and returns the JSON body of the successful response
  pretty-printed the same way.
\<close>

theorem read_resource_recognized:
  "(CHR ''?'' \<notin> set s \<and> CHR ''#'' \<notin> set s
      \<longrightarrow> trailing_segment s = trailing_path_segment s)
   \<and> (prefix ''confluence://spaces/'' s \<longrightarrow>
      snd (read_resource g up (Url s))
        = [\<lparr>url = CONFLUENCE_URL g @ ''/wiki/rest/api/space/'' @ trailing_segment s @ ''/content'',
            req_headers = headers g, params = []\<rparr>]
      \<and> (\<forall>r body.
            up \<lparr>url = CONFLUENCE_URL g @ ''/wiki/rest/api/space/'' @ trailing_segment s @ ''/content'',
                req_headers = headers g, params = []\<rparr> = Inr r
            \<and> decoded r = Some body
            \<longrightarrow> fst (read_resource g up (Url s)) = Inr (two_space_layout body)))
   \<and> (prefix ''confluence://pages/'' s \<longrightarrow>
      snd (read_resource g up (Url s))
        = [\<lparr>url = CONFLUENCE_URL g @ ''/wiki/rest/api/content/'' @ trailing_segment s
                   @ ''?expand=body.storage'',
            req_headers = headers g, params = []\<rparr>]
      \<and> (\<forall>r body.
            up \<lparr>url = CONFLUENCE_URL g @ ''/wiki/rest/api/content/'' @ trailing_segment s
                   @ ''?expand=body.storage'',
                req_headers = headers g, params = []\<rparr> = Inr r
            \<and> is_success r \<and> decoded r = Some body
            \<longrightarrow> fst (read_resource g up (Url s)) = Inr (two_space_layout body)))"
proof (intro conjI impI allI)
  assume "CHR ''?'' \<notin> set s \<and> CHR ''#'' \<notin> set s"
  then have whole: "takeWhile (\<lambda>c. c \<noteq> CHR ''?'' \<and> c \<noteq> CHR ''#'') s = s"
    by (subst takeWhile_eq_all_conv) blast
  show "trailing_segment s = trailing_path_segment s"
    unfolding trailing_path_segment_def whole by (rule refl)
next
  assume "prefix ''confluence://spaces/'' s"
  then show "snd (read_resource g up (Url s))
        = [\<lparr>url = CONFLUENCE_URL g @ ''/wiki/rest/api/space/'' @ trailing_segment s @ ''/content'',
            req_headers = headers g, params = []\<rparr>]"
    by (simp add: read_resource_def last_item_split space_content_request_def)
next
  fix r body
  assume "prefix ''confluence://spaces/'' s"
    and "up \<lparr>url = CONFLUENCE_URL g @ ''/wiki/rest/api/space/'' @ trailing_segment s @ ''/content'',
                req_headers = headers g, params = []\<rparr> = Inr r \<and> decoded r = Some body"
  then show "fst (read_resource g up (Url s)) = Inr (two_space_layout body)"
    by (simp add: read_resource_def last_item_split space_content_request_def and_then_def
        response_json_def json_dumps_layout)
next
  assume pages: "prefix ''confluence://pages/'' s"
  then have "\<not> prefix ''confluence://spaces/'' s"
    by (auto simp: prefix_def)
  with pages show "snd (read_resource g up (Url s))
        = [\<lparr>url = CONFLUENCE_URL g @ ''/wiki/rest/api/content/'' @ trailing_segment s
                   @ ''?expand=body.storage'',
            req_headers = headers g, params = []\<rparr>]"
    by (simp add: read_resource_def last_item_split get_page_content_def page_request_def)
next
  fix r body
  assume pages: "prefix ''confluence://pages/'' s"
    and ok: "up \<lparr>url = CONFLUENCE_URL g @ ''/wiki/rest/api/content/'' @ trailing_segment s
                   @ ''?expand=body.storage'',
                req_headers = headers g, params = []\<rparr> = Inr r
            \<and> is_success r \<and> decoded r = Some body"
  from pages have "\<not> prefix ''confluence://spaces/'' s"
    by (auto simp: prefix_def)
  with pages ok show "fst (read_resource g up (Url s)) = Inr (two_space_layout body)"
    by (simp add: read_resource_def last_item_split get_page_content_def page_request_def
        and_then_def raise_for_status_def response_json_def json_dumps_layout)
qed

theorem read_resource_recognized_witness:
  \<open>read_resource example_globals (answering 200 example_page) (Url ''confluence://spaces/ENG'')
     = (Inr (''{\<newline>'' @
             ''  "id": "12345",\<newline>'' @
             ''  "title": "Home"\<newline>'' @
             ''}''),
        [\<lparr>url = ''https://wiki.example.com/wiki/rest/api/space/ENG/content'',
          req_headers = headers example_globals, params = []\<rparr>])
   \<and> read_resource example_globals (answering 200 example_page) (Url ''confluence://pages/12345'')
     = (Inr (''{\<newline>'' @
             ''  "id": "12345",\<newline>'' @
             ''  "title": "Home"\<newline>'' @
             ''}''),
        [\<lparr>url = ''https://wiki.example.com/wiki/rest/api/content/12345?expand=body.storage'',
          req_headers = headers example_globals, params = []\<rparr>])\<close>
proof -
  have seg: "trailing_segment ''confluence://spaces/ENG'' = ''ENG''"
    "trailing_segment ''confluence://pages/12345'' = ''12345''"
    by (simp_all add: trailing_segment_def)
  have url: "CONFLUENCE_URL example_globals = ''https://wiki.example.com''"
    by (simp add: example_globals_def)
  have ans: "\<And>req. answering 200 example_page req
               = Inr \<lparr>status_code = 200, decoded = Some example_page\<rparr>"
    by (simp add: answering_def)
  have ok: "is_success \<lparr>status_code = 200, decoded = Some example_page\<rparr>"
    by (simp add: is_success_def)
  have page_text: \<open>two_space_layout example_page
      = ''{\<newline>'' @ ''  "id": "12345",\<newline>'' @ ''  "title": "Home"\<newline>'' @ ''}''\<close>
    by (simp add: two_space_layout_def example_page_def indent2_def
        encode_basestring_ascii_def escape_char_def backslash_def dquote_def newline_def)
  show ?thesis
    using read_resource_recognized
        [of "''confluence://spaces/ENG''" example_globals "answering 200 example_page"]
      read_resource_recognized
        [of "''confluence://pages/12345''" example_globals "answering 200 example_page"]
    by (simp add: seg url ans ok prod_eq_iff page_text)
qed

text \<open>
  Claim C4: for every URI of neither recognized form, that is, whose string form starts
  with neither \<open>confluence://spaces/\<close> nor \<open>confluence://pages/\<close>,
  \<open>read_resource\<close> fails with the error \<open>Unknown resource\<close> and issues no HTTP
  call.
\<close>

theorem read_resource_unknown:
  assumes "\<not> prefix ''confluence://spaces/'' s" and "\<not> prefix ''confluence://pages/'' s"
  shows "read_resource g up (Url s) = (Inl (ValueError (''Unknown resource: '' @ s)), [])"
  using assms by (simp add: read_resource_def)

theorem read_resource_unknown_witness:
  "read_resource example_globals (answering 200 example_page) (Url ''confluence://unknown/x'')
     = (Inl (ValueError ''Unknown resource: confluence://unknown/x''), [])"
  using read_resource_unknown [of "''confluence://unknown/x''" example_globals "answering 200 example_page"]
  by simp

text \<open>
  Claim C5: for the tool \<open>search_content\<close> and an arguments object without
  \<open>query\<close>, and for the tool \<open>get_page\<close> and an arguments object without
  \<open>page_id\<close>, \<open>call_tool\<close> fails with the error saying that the parameter is
  required and issues no HTTP call.
\<close>

theorem call_tool_missing_argument:
  "(field arguments ''query'' = None \<and> is_object arguments \<longrightarrow>
      call_tool g up ''search_content'' arguments
        = (Inl (ValueError ''Query parameter is required''), []))
   \<and> (field arguments ''page_id'' = None \<and> is_object arguments \<longrightarrow>
      call_tool g up ''get_page'' arguments
        = (Inl (ValueError ''Page ID parameter is required''), []))"
  by (cases arguments) (simp_all add: call_tool_def)

theorem call_tool_missing_argument_witness:
  "call_tool example_globals (answering 200 example_listing) ''search_content'' (JObject [])
     = (Inl (ValueError ''Query parameter is required''), [])
   \<and> call_tool example_globals (answering 200 example_page) ''get_page''
         (JObject [(''query'', JString ''type=page'')])
     = (Inl (ValueError ''Page ID parameter is required''), [])"
  using call_tool_missing_argument [of "JObject []" example_globals "answering 200 example_listing"]
    call_tool_missing_argument [of "JObject [(''query'', JString ''type=page'')]" example_globals
      "answering 200 example_page"]
  by simp

text \<open>
  Claim C6, as stated: for every arguments object containing the required argument,
  \<open>call_tool\<close> issues the search (or page fetch) GET and returns the result
  pretty-printed. The handler tests the truth value of the argument, not its presence:
  an arguments object that contains \<open>query\<close> with the empty string gets the error
  and no GET is issued.
\<close>

theorem call_tool_empty_query_counterexample:
  "field (JObject [(''query'', JString [])]) ''query'' = Some (JString [])
   \<and> call_tool example_globals (answering 200 example_listing) ''search_content''
         (JObject [(''query'', JString [])])
     = (Inl (ValueError ''Query parameter is required''), [])"
  by (simp add: call_tool_def)

text \<open>
  Claim C6, amended: for every arguments object whose required argument is present with
  a true value (for a string: not empty), \<open>call_tool("search_content", ...)\<close> issues
  one search GET with the query parameter \<open>cql\<close> equal to the query and, on a
  successful JSON response, returns its \<open>results\<close> member pretty-printed with an
  indentation of two spaces (the layout \<open>two_space_layout\<close>);
  \<open>call_tool("get_page", ...)\<close> issues one page-fetch GET for that id with
  \<open>expand=body.storage\<close> and, on a successful JSON response, returns the whole body
  pretty-printed the same way.
\<close>

theorem call_tool_dispatch:
  "(field arguments ''query'' = Some query \<and> truthy query \<longrightarrow>
      snd (call_tool g up ''search_content'' arguments)
        = [\<lparr>url = CONFLUENCE_URL g @ ''/wiki/rest/api/search'',
            req_headers = headers g, params = [(''cql'', query)]\<rparr>]
      \<and> (\<forall>r body results.
            up \<lparr>url = CONFLUENCE_URL g @ ''/wiki/rest/api/search'',
                req_headers = headers g, params = [(''cql'', query)]\<rparr> = Inr r
            \<and> is_success r \<and> decoded r = Some body
            \<and> field body ''results'' = Some results
            \<longrightarrow> fst (call_tool g up ''search_content'' arguments) = Inr (two_space_layout results)))
   \<and> (field arguments ''page_id'' = Some page_id \<and> truthy page_id \<longrightarrow>
      snd (call_tool g up ''get_page'' arguments)
        = [\<lparr>url = CONFLUENCE_URL g @ ''/wiki/rest/api/content/'' @ py_str page_id
                   @ ''?expand=body.storage'',
            req_headers = headers g, params = []\<rparr>]
      \<and> (\<forall>r body.
            up \<lparr>url = CONFLUENCE_URL g @ ''/wiki/rest/api/content/'' @ py_str page_id
                   @ ''?expand=body.storage'',
                req_headers = headers g, params = []\<rparr> = Inr r
            \<and> is_success r \<and> decoded r = Some body
            \<longrightarrow> fst (call_tool g up ''get_page'' arguments) = Inr (two_space_layout body)))"
proof (intro conjI impI allI)
  assume a: "field arguments ''query'' = Some query \<and> truthy query"
  then obtain kvs where kvs: "arguments = JObject kvs" by (cases arguments) simp_all
  with a show "snd (call_tool g up ''search_content'' arguments)
        = [\<lparr>url = CONFLUENCE_URL g @ ''/wiki/rest/api/search'',
            req_headers = headers g, params = [(''cql'', query)]\<rparr>]"
    by (simp add: call_tool_def search_confluence_def search_request_def)
next
  fix r body results
  assume a: "field arguments ''query'' = Some query \<and> truthy query"
    and ok: "up \<lparr>url = CONFLUENCE_URL g @ ''/wiki/rest/api/search'',
                req_headers = headers g, params = [(''cql'', query)]\<rparr> = Inr r
            \<and> is_success r \<and> decoded r = Some body
            \<and> field body ''results'' = Some results"
  from a obtain kvs where kvs: "arguments = JObject kvs" by (cases arguments) simp_all
  from ok obtain bkvs where b: "body = JObject bkvs" by (cases body) simp_all
  from a ok kvs b show "fst (call_tool g up ''search_content'' arguments) = Inr (two_space_layout results)"
    by (simp add: call_tool_def search_confluence_def search_request_def and_then_def
        raise_for_status_def response_json_def json_dumps_layout)
next
  assume a: "field arguments ''page_id'' = Some page_id \<and> truthy page_id"
  then obtain kvs where kvs: "arguments = JObject kvs" by (cases arguments) simp_all
  with a show "snd (call_tool g up ''get_page'' arguments)
        = [\<lparr>url = CONFLUENCE_URL g @ ''/wiki/rest/api/content/'' @ py_str page_id
                   @ ''?expand=body.storage'',
            req_headers = headers g, params = []\<rparr>]"
    by (simp add: call_tool_def get_page_content_def page_request_def)
next
  fix r body
  assume a: "field arguments ''page_id'' = Some page_id \<and> truthy page_id"
    and ok: "up \<lparr>url = CONFLUENCE_URL g @ ''/wiki/rest/api/content/'' @ py_str page_id
                   @ ''?expand=body.storage'',
                req_headers = headers g, params = []\<rparr> = Inr r
            \<and> is_success r \<and> decoded r = Some body"
  from a obtain kvs where kvs: "arguments = JObject kvs" by (cases arguments) simp_all
  from a ok kvs show "fst (call_tool g up ''get_page'' arguments) = Inr (two_space_layout body)"
    by (simp add: call_tool_def get_page_content_def page_request_def and_then_def
        raise_for_status_def response_json_def json_dumps_layout)
qed

theorem call_tool_dispatch_witness:
  \<open>call_tool example_globals (answering 200 example_listing) ''search_content''
       (JObject [(''query'', JString ''type=page'')])
     = (Inr (''[\<newline>'' @
             ''  {\<newline>'' @
             ''    "key": "ENG",\<newline>'' @
             ''    "name": "Engineering",\<newline>'' @
             ''    "description": {\<newline>'' @
             ''      "plain": {\<newline>'' @
             ''        "value": "Docs"\<newline>'' @
             ''      }\<newline>'' @
             ''    }\<newline>'' @
             ''  },\<newline>'' @
             ''  {\<newline>'' @
             ''    "key": "OPS",\<newline>'' @
             ''    "name": "Operations"\<newline>'' @
             ''  }\<newline>'' @
             '']''),
        [\<lparr>url = ''https://wiki.example.com/wiki/rest/api/search'',
          req_headers = headers example_globals,
          params = [(''cql'', JString ''type=page'')]\<rparr>])
   \<and> call_tool example_globals (answering 200 example_page) ''get_page''
       (JObject [(''page_id'', JString ''999'')])
     = (Inr (''{\<newline>'' @
             ''  "id": "12345",\<newline>'' @
             ''  "title": "Home"\<newline>'' @
             ''}''),
        [\<lparr>url = ''https://wiki.example.com/wiki/rest/api/content/999?expand=body.storage'',
          req_headers = headers example_globals, params = []\<rparr>])\<close>
proof -
  let ?results = "JArray
          [JObject [(''key'', JString ''ENG''), (''name'', JString ''Engineering''),
                 (''description'', JObject [(''plain'', JObject [(''value'', JString ''Docs'')])])],
           JObject [(''key'', JString ''OPS''), (''name'', JString ''Operations'')]]"
  have url: "CONFLUENCE_URL example_globals = ''https://wiki.example.com''"
    by (simp add: example_globals_def)
  have ans: "\<And>st b req. answering st b req = Inr \<lparr>status_code = st, decoded = Some b\<rparr>"
    by (simp add: answering_def)
  have ok: "\<And>b. is_success \<lparr>status_code = 200, decoded = Some b\<rparr>"
    by (simp add: is_success_def)
  have res: "field example_listing ''results'' = Some ?results"
    by (simp add: example_listing_def)
  have page_text: \<open>two_space_layout example_page
      = ''{\<newline>'' @ ''  "id": "12345",\<newline>'' @ ''  "title": "Home"\<newline>'' @ ''}''\<close>
    by (simp add: two_space_layout_def example_page_def indent2_def
        encode_basestring_ascii_def escape_char_def backslash_def dquote_def newline_def)
  have results_text: \<open>two_space_layout ?results
      = ''[\<newline>'' @
        ''  {\<newline>'' @
        ''    "key": "ENG",\<newline>'' @
        ''    "name": "Engineering",\<newline>'' @
        ''    "description": {\<newline>'' @
        ''      "plain": {\<newline>'' @
        ''        "value": "Docs"\<newline>'' @
        ''      }\<newline>'' @
        ''    }\<newline>'' @
        ''  },\<newline>'' @
        ''  {\<newline>'' @
        ''    "key": "OPS",\<newline>'' @
        ''    "name": "Operations"\<newline>'' @
        ''  }\<newline>'' @
        '']''\<close>
    by (simp add: two_space_layout_def indent2_def
        encode_basestring_ascii_def escape_char_def backslash_def dquote_def newline_def)
  have search:
    "call_tool example_globals (answering 200 example_listing) ''search_content''
       (JObject [(''query'', JString ''type=page'')])
     = (Inr (two_space_layout ?results),
        [\<lparr>url = ''https://wiki.example.com/wiki/rest/api/search'',
          req_headers = headers example_globals,
          params = [(''cql'', JString ''type=page'')]\<rparr>])"
    using call_tool_dispatch [of "JObject [(''query'', JString ''type=page'')]"
        "JString ''type=page''" example_globals "answering 200 example_listing" "JString ''999''"]
    by (simp add: url ans ok res prod_eq_iff)
  have page:
    "call_tool example_globals (answering 200 example_page) ''get_page''
       (JObject [(''page_id'', JString ''999'')])
     = (Inr (two_space_layout example_page),
        [\<lparr>url = ''https://wiki.example.com/wiki/rest/api/content/999?expand=body.storage'',
          req_headers = headers example_globals, params = []\<rparr>])"
    using call_tool_dispatch [of "JObject [(''page_id'', JString ''999'')]"
        "JString ''type=page''" example_globals "answering 200 example_page" "JString ''999''"]
    by (simp add: url ans ok prod_eq_iff)
  show ?thesis
    unfolding search page results_text page_text by simp
qed

text \<open>
  Claim C7: for every tool name other than \<open>search_content\<close> and \<open>get_page\<close>,
  \<open>call_tool\<close> fails with the error \<open>Unknown tool\<close>, whatever the arguments
  are, and issues no HTTP call.
\<close>

theorem call_tool_unknown:
  assumes "nm \<noteq> ''search_content''" and "nm \<noteq> ''get_page''"
  shows "call_tool g up nm arguments = (Inl (ValueError (''Unknown tool: '' @ nm)), [])"
  using assms by (simp add: call_tool_def)

theorem call_tool_unknown_witness:
  "call_tool example_globals (answering 200 example_page) ''delete_page'' JNull
     = (Inl (ValueError ''Unknown tool: delete_page''), [])"
  using call_tool_unknown [of "''delete_page''" example_globals "answering 200 example_page" JNull]
  by simp




text \<open>
  Claim C9: the authorization header is built once, when the module loads, as
  \<open>Basic\<close>, a space, and the base64 encoding of \<open>email:token\<close>; every HTTP
  request that any handler issues afterwards, in any sequence of handler calls on the
  loaded module, carries exactly this header value (and the same \<open>Content-Type\<close>). The
  handlers only read the globals, they return no new ones.
\<close>

theorem authorization_header_fixed:
  assumes "load_module environ = Inr g"
    and "environ ''CONFLUENCE_EMAIL'' = Some email"
    and "environ ''CONFLUENCE_API_TOKEN'' = Some token"
  shows "headers g = [(''Authorization'', ''Basic '' @ b64encode (email @ '':'' @ token)),
                      (''Content-Type'', ''application/json'')]
    \<and> (\<forall>out \<in> set (serve lib g ups n rpcs). \<forall>req \<in> set (snd out).
           req_headers req = [(''Authorization'', ''Basic '' @ b64encode (email @ '':'' @ token)),
                              (''Content-Type'', ''application/json'')])"
proof -
  from assms have "headers g = [(''Authorization'', ''Basic '' @ b64encode (email @ '':'' @ token)),
                              (''Content-Type'', ''application/json'')]"
    by (rule load_module_headers)
  then show ?thesis
    by (auto dest: serve_headers)
qed

theorem authorization_header_fixed_witness:
  "load_module example_environ = Inr example_globals
   \<and> map (\<lambda>out. length (snd out))
        (serve rejecting_lib example_globals (\<lambda>n. answering 200 example_page) 0
         [ReadResource (Url ''confluence://pages/12345''), ListTools,
          CallTool ''search_content'' (JObject [(''query'', JString ''type=page'')])])
     = [1, 0, 1]
   \<and> list_all (\<lambda>out. list_all (\<lambda>req. req_headers req =
          [(''Authorization'', ''Basic YUBiLmM6dG9r''), (''Content-Type'', ''application/json'')])
        (snd out))
        (serve rejecting_lib example_globals (\<lambda>n. answering 200 example_page) 0
         [ReadResource (Url ''confluence://pages/12345''), ListTools,
          CallTool ''search_content'' (JObject [(''query'', JString ''type=page'')])])"
proof -
  let ?ups = "\<lambda>n::nat. answering 200 example_page"
  let ?rpcs = "[ReadResource (Url ''confluence://pages/12345''), ListTools,
        CallTool ''search_content'' (JObject [(''query'', JString ''type=page'')])]"
  have email: "example_environ ''CONFLUENCE_EMAIL'' = Some ''a@b.c''"
    and token: "example_environ ''CONFLUENCE_API_TOKEN'' = Some ''tok''"
    by (simp_all add: example_environ_def)
  have sent: "map (\<lambda>out. length (snd out)) (serve rejecting_lib example_globals ?ups 0 ?rpcs)
      = [1, 0, 1]"
    by (simp add: dispatch_def split: prod.splits)
      (simp add: read_resource_def call_tool_def last_item_def get_page_content_def
        search_confluence_def)
  have "\<forall>out \<in> set (serve rejecting_lib example_globals ?ups 0 ?rpcs). \<forall>req \<in> set (snd out).
           req_headers req = [(''Authorization'', ''Basic '' @ b64encode (''a@b.c'' @ '':'' @ ''tok'')),
                              (''Content-Type'', ''application/json'')]"
    using authorization_header_fixed [OF load_example email token] by blast
  then have "list_all (\<lambda>out. list_all (\<lambda>req. req_headers req =
          [(''Authorization'', ''Basic YUBiLmM6dG9r''), (''Content-Type'', ''application/json'')])
        (snd out)) (serve rejecting_lib example_globals ?ups 0 ?rpcs)"
    unfolding list_all_iff using b64_example by simp
  with load_example sent show ?thesis by simp
qed

text \<open>
  Claim C10: when the required argument of a tool is present but is the empty string (or
  any other value Python counts as false), \<open>call_tool\<close> fails with the same error as
  when the argument is absent and issues no HTTP call: the check is on the truth value,
  not on the membership of the key.
\<close>

theorem call_tool_falsy_argument:
  "(field arguments ''query'' = Some v \<and> \<not> truthy v \<longrightarrow>
      call_tool g up ''search_content'' arguments
        = (Inl (ValueError ''Query parameter is required''), [])
      \<and> call_tool g up ''search_content'' arguments
        = call_tool g up ''search_content'' (JObject []))
   \<and> (field arguments ''page_id'' = Some v \<and> \<not> truthy v \<longrightarrow>
      call_tool g up ''get_page'' arguments
        = (Inl (ValueError ''Page ID parameter is required''), [])
      \<and> call_tool g up ''get_page'' arguments
        = call_tool g up ''get_page'' (JObject []))"
  by (cases arguments) (simp_all add: call_tool_def)

theorem call_tool_falsy_argument_witness:
  "call_tool example_globals (answering 200 example_listing) ''search_content''
       (JObject [(''query'', JString [])])
     = (Inl (ValueError ''Query parameter is required''), [])
   \<and> call_tool example_globals (answering 200 example_page) ''get_page''
       (JObject [(''page_id'', JString [])])
     = (Inl (ValueError ''Page ID parameter is required''), [])"
  using call_tool_falsy_argument [of "JObject [(''query'', JString [])]" "JString []" example_globals
      "answering 200 example_listing"]
    call_tool_falsy_argument [of "JObject [(''page_id'', JString [])]" "JString []" example_globals
      "answering 200 example_page"]
  by simp

end
